theory Spec2Isabelle
  imports Main
begin

section \<open>Values on the wire\<close>

text \<open>
  Frames are JSON texts. \<open>json.loads\<close> turns a text into a Python value; the model keeps
  that value as a tree. Numbers are restricted to integers. A JSON object is kept as its
  list of members in the order of the text; \<open>dict_get\<close> below reads it the way the Python
  dict built from it answers \<open>.get\<close> (of two members with one key the later one counts).
  Python's \<open>None\<close> and JSON's \<open>null\<close> are the same value, as they are after
  \<open>json.loads\<close>.
\<close>

datatype json =
    JNull
  | JBool bool
  | JInt int
  | JStr string
  | JArr "json list"
  | JObj "(string \<times> json) list"

text \<open>Python truthiness, as used by \<open>not thread_id or not content\<close> and \<open>if thread_id:\<close>.\<close>

fun truthy :: "json \<Rightarrow> bool" where
  "truthy JNull = False"
| "truthy (JBool b) = b"
| "truthy (JInt i) = (i \<noteq> 0)"
| "truthy (JStr s) = (s \<noteq> [])"
| "truthy (JArr xs) = (xs \<noteq> [])"
| "truthy (JObj kvs) = (kvs \<noteq> [])"

definition dict_get :: "(string \<times> json) list \<Rightarrow> string \<Rightarrow> json \<Rightarrow> json" where
  "dict_get kvs k dflt = (case map_of (rev kvs) k of None \<Rightarrow> dflt | Some v \<Rightarrow> v)"

text \<open>
  Identifiers and datetimes are opaque strings: a string stands for one uuid, written as
  \<open>str(uuid)\<close> writes it, and a datetime is kept in its \<open>isoformat()\<close>. A text
  that is no uuid, which the driver refuses, and a second spelling of a uuid are not
  among the inputs of the model. A WebSocket object is known by its identity, a number.
\<close>

type_synonym uid = string
type_synonym datetime = string
type_synonym ws = nat

section \<open>The relational store (models.py)\<close>

record direct_message =
  dm_id :: string
  dm_thread_id :: string
  dm_sender_id :: uid
  dm_content :: string
  dm_attachments :: json
  dm_read_by :: "uid list option"
  dm_created_at :: datetime

record direct_message_thread =
  th_id :: string
  th_created_at :: datetime
  th_updated_at :: datetime

text \<open>
  The tables the messaging code reads and writes. A row of \<open>thread_participants\<close> is the
  pair (thread_id, user_id); its \<open>joined_at\<close> column is never read. Of a user only
  the primary key is kept.
\<close>

record database =
  users :: "uid list"
  direct_message_threads :: "direct_message_thread list"
  thread_participants :: "(string \<times> uid) list"
  direct_messages :: "direct_message list"

section \<open>The world a gateway instance acts on\<close>

datatype exn =
    WebSocketDisconnect
  | JSONDecodeError
  | AttributeError
  | UnboundLocalError
  | MultipleResultsFound
  | DataError
  | TypeError
  | SendError

text \<open>
  What an instance does to its surroundings is recorded in order: a frame that went out
  on a socket, a \<open>send_json\<close> that raised, a commit (with the committed tables), a
  publication on the Redis channel.
\<close>

datatype event =
    Sent ws json
  | SendFailed ws json
  | Committed database
  | Published json

text \<open>
  \<open>ConnectionManager\<close>: \<open>active_connections\<close> maps a user to the set of its sockets.
  The set is a duplicate-free list; the order of the list stands for the order in which
  Python happens to iterate the set. \<open>redis\<close> and \<open>pubsub\<close> say whether the attribute
  is set (not \<open>None\<close>).
\<close>

record connection_manager =
  active_connections :: "uid \<rightharpoonup> ws list"
  redis :: bool
  pubsub :: bool

record world =
  store :: database
  mgr :: connection_manager
  trace :: "event list"

text \<open>
  What the surroundings decide during one step: which sockets raise on \<open>send_json\<close>,
  whether Redis can be reached, how many sessions \<open>get_db()\<close> yields to an
  \<open>async for\<close> (database.py is not among the sources; as a FastAPI dependency it
  yields once), and what \<open>uuid.uuid4()\<close> and \<open>datetime.now(timezone.utc)\<close> return.
  \<open>uuid4\<close> is taken to return an identifier not in use.
\<close>

record env =
  broken :: "ws \<Rightarrow> bool"
  redis_up :: bool
  db_sessions :: nat
  uuid4 :: string
  utcnow :: datetime

section \<open>websocket_manager.py\<close>

definition send_json :: "env \<Rightarrow> ws \<Rightarrow> json \<Rightarrow> world \<Rightarrow> exn option \<times> world" where
  "send_json e c msg w =
     (if broken e c then (Some SendError, w\<lparr>trace := trace w @ [SendFailed c msg]\<rparr>)
      else (None, w\<lparr>trace := trace w @ [Sent c msg]\<rparr>))"

definition set_add :: "'a \<Rightarrow> 'a list \<Rightarrow> 'a list" where
  "set_add x xs = (if x \<in> set xs then xs else xs @ [x])"

text \<open>
  \<open>initialize\<close>: \<open>self.redis\<close> and \<open>self.pubsub\<close> are assigned before
  \<open>subscribe\<close>, the first statement of the \<open>try\<close> that talks to the server. When
  Redis cannot be reached the failure of \<open>subscribe\<close> is logged and both attributes stay
  set; so they are set either way.
\<close>

definition initialize :: "env \<Rightarrow> connection_manager \<Rightarrow> connection_manager" where
  "initialize e m = m\<lparr>redis := True, pubsub := True\<rparr>"

definition connect :: "ws \<Rightarrow> uid \<Rightarrow> connection_manager \<Rightarrow> connection_manager" where
  "connect c u m =
     (let conns = (case active_connections m u of None \<Rightarrow> [] | Some cs \<Rightarrow> cs)
      in m\<lparr>active_connections := (active_connections m)(u \<mapsto> set_add c conns)\<rparr>)"

definition disconnect :: "ws \<Rightarrow> uid \<Rightarrow> connection_manager \<Rightarrow> connection_manager" where
  "disconnect c u m =
     (case active_connections m u of
        None \<Rightarrow> m
      | Some cs \<Rightarrow>
          (let cs' = removeAll c cs
           in if cs' = [] then m\<lparr>active_connections := (active_connections m)(u := None)\<rparr>
              else m\<lparr>active_connections := (active_connections m)(u \<mapsto> cs')\<rparr>))"

text \<open>
  The first loop of \<open>send_personal_message\<close>: every connection is tried; one that raises
  is collected in \<open>disconnected\<close> and the loop goes on.
\<close>

fun send_to_connections ::
  "env \<Rightarrow> json \<Rightarrow> ws list \<Rightarrow> ws list \<times> world \<Rightarrow> ws list \<times> world" where
  "send_to_connections e msg [] (disconnected, w) = (disconnected, w)"
| "send_to_connections e msg (c # cs) (disconnected, w) =
     (case send_json e c msg w of
        (None, w') \<Rightarrow> send_to_connections e msg cs (disconnected, w')
      | (Some x, w') \<Rightarrow> send_to_connections e msg cs (set_add c disconnected, w'))"

definition send_personal_message :: "env \<Rightarrow> json \<Rightarrow> uid \<Rightarrow> world \<Rightarrow> world" where
  "send_personal_message e msg u w =
     (case active_connections (mgr w) u of
        None \<Rightarrow> w
      | Some cs \<Rightarrow>
          (case send_to_connections e msg cs ([], w) of
             (disconnected, w') \<Rightarrow> w'\<lparr>mgr := fold (\<lambda>c. disconnect c u) disconnected (mgr w')\<rparr>))"

fun broadcast_to_thread :: "env \<Rightarrow> json \<Rightarrow> uid list \<Rightarrow> world \<Rightarrow> world" where
  "broadcast_to_thread e msg [] w = w"
| "broadcast_to_thread e msg (u # us) w =
     broadcast_to_thread e msg us (send_personal_message e msg u w)"

text \<open>
  \<open>publish_message\<close>: nothing without a Redis client; a failing publish is logged and
  swallowed.
\<close>

definition publish_message :: "env \<Rightarrow> json \<Rightarrow> world \<Rightarrow> world" where
  "publish_message e msg w =
     (if redis (mgr w) \<and> redis_up e then w\<lparr>trace := trace w @ [Published msg]\<rparr> else w)"

text \<open>
  The body of the loop of \<open>handle_redis_messages\<close>, for one payload read from the
  channel and decoded: it is sent to every user listed under \<open>user_ids\<close>. Python
  iterates a list by its elements, a string by its characters and a dict by its keys;
  anything else is not iterable. An element that is a list or a dict cannot be looked up
  in \<open>active_connections\<close>; a number, a truth value or \<open>None\<close> can, and is not
  there. An exception is logged by the handler and ends its loop.
\<close>

fun forward_to :: "env \<Rightarrow> json \<Rightarrow> json list \<Rightarrow> world \<Rightarrow> exn option \<times> world" where
  "forward_to e data [] w = (None, w)"
| "forward_to e data (JStr u # xs) w = forward_to e data xs (send_personal_message e data u w)"
| "forward_to e data (JArr ys # xs) w = (Some TypeError, w)"
| "forward_to e data (JObj kvs # xs) w = (Some TypeError, w)"
| "forward_to e data (x # xs) w = forward_to e data xs w"

definition on_redis_message :: "env \<Rightarrow> json \<Rightarrow> world \<Rightarrow> exn option \<times> world" where
  "on_redis_message e data w =
     (case data of
        JObj kvs \<Rightarrow>
          (case dict_get kvs ''user_ids'' (JArr []) of
             JArr xs \<Rightarrow> forward_to e data xs w
           | JStr cs \<Rightarrow> forward_to e data (map (\<lambda>c. JStr [c]) cs) w
           | JObj m \<Rightarrow> forward_to e data (map JStr (rev (remdups (rev (map fst m))))) w
           | _ \<Rightarrow> (Some TypeError, w))
      | _ \<Rightarrow> (Some AttributeError, w))"

section \<open>Queries\<close>

text \<open>
  \<open>select(thread_participants).where(thread_id == t, user_id == u)\<close> followed by
  \<open>result.first()\<close> tested for truth.
\<close>

definition is_participant :: "database \<Rightarrow> string \<Rightarrow> uid \<Rightarrow> bool" where
  "is_participant d t u = ((t, u) \<in> set (thread_participants d))"

text \<open>\<open>select(thread_participants.c.user_id).where(thread_id == t)\<close>, all rows.\<close>

definition participants_of :: "database \<Rightarrow> string \<Rightarrow> uid list" where
  "participants_of d t = map snd (filter (\<lambda>r. fst r = t) (thread_participants d))"

definition scalar_one_or_none :: "'a list \<Rightarrow> exn + 'a option" where
  "scalar_one_or_none rows =
     (case rows of
        [] \<Rightarrow> Inr None
      | [x] \<Rightarrow> Inr (Some x)
      | _ \<Rightarrow> Inl MultipleResultsFound)"

definition find_message :: "database \<Rightarrow> string \<Rightarrow> string \<Rightarrow> direct_message list" where
  "find_message d mid t =
     filter (\<lambda>m. dm_id m = mid \<and> dm_thread_id m = t) (direct_messages d)"

text \<open>\<open>message.read_by or []\<close>\<close>

definition read_by_or_empty :: "direct_message \<Rightarrow> uid list" where
  "read_by_or_empty m = (case dm_read_by m of None \<Rightarrow> [] | Some us \<Rightarrow> us)"

text \<open>
  What \<open>db.commit()\<close> writes after both read paths have run
  \<open>read_by_list.append(user_id)\<close> and \<open>message.read_by = read_by_list\<close> on the one
  message the query returned. \<open>read_by\<close> is a plain \<open>JSON\<close> column. When the loaded
  value is a non-empty list, \<open>read_by_list\<close> is that very list: it is changed in place
  and put back, the session compares the attribute with itself, sees no change and issues
  no \<open>UPDATE\<close>. Only when the loaded value is \<open>None\<close> or empty is
  \<open>read_by_list\<close> a new list, and then \<open>[user_id]\<close> is written.
\<close>

definition commit_read_by :: "string \<Rightarrow> string \<Rightarrow> uid \<Rightarrow> database \<Rightarrow> database" where
  "commit_read_by mid t u d =
     d\<lparr>direct_messages :=
         map (\<lambda>m. if dm_id m = mid \<and> dm_thread_id m = t \<and> read_by_or_empty m = []
                  then m\<lparr>dm_read_by := Some [u]\<rparr> else m)
           (direct_messages d)\<rparr>"

section \<open>routes/messages.py\<close>

datatype failure =
    RequestValidationError
  | HTTPException nat string
  | Raised exn

text \<open>
  \<open>create_thread\<close>. The request schema \<open>MessageThreadCreate\<close> wants at least two
  \<open>participant_ids\<close>. \<open>participant_ids_set\<close> is a duplicate-free list. The subquery
  groups the participant rows whose user is in the set by thread and keeps the threads
  with two such rows.
\<close>

definition dedup_subquery :: "database \<Rightarrow> uid list \<Rightarrow> string list" where
  "dedup_subquery d participant_ids_set =
     (let rows = filter (\<lambda>r. snd r \<in> set participant_ids_set) (thread_participants d)
      in remdups (filter (\<lambda>t. length (filter (\<lambda>r. fst r = t) rows) = 2) (map fst rows)))"

definition new_thread_with ::
  "env \<Rightarrow> uid list \<Rightarrow> database \<Rightarrow> (failure + direct_message_thread) \<times> database" where
  "new_thread_with e participant_ids_set d =
     (let new_thread = \<lparr>th_id = uuid4 e, th_created_at = utcnow e, th_updated_at = utcnow e\<rparr>
      in (Inr new_thread,
          d\<lparr>direct_message_threads := direct_message_threads d @ [new_thread],
            thread_participants :=
              thread_participants d @ map (\<lambda>p. (uuid4 e, p)) participant_ids_set\<rparr>))"

definition create_thread ::
  "env \<Rightarrow> uid list \<Rightarrow> uid \<Rightarrow> database \<Rightarrow> (failure + direct_message_thread) \<times> database" where
  "create_thread e participant_ids current_user d =
     (if length participant_ids < 2 then (Inl RequestValidationError, d)
      else
        let participant_ids_set = set_add current_user (remdups participant_ids);
            found_users = filter (\<lambda>u. u \<in> set participant_ids_set) (users d)
        in if length found_users \<noteq> length participant_ids_set
           then (Inl (HTTPException 404 ''One or more participants not found''), d)
           else if length participant_ids_set = 2
           then
             (case scalar_one_or_none
                     (filter (\<lambda>th. th_id th \<in> set (dedup_subquery d participant_ids_set))
                        (direct_message_threads d)) of
                Inl x \<Rightarrow> (Inl (Raised x), d)
              | Inr (Some existing_thread) \<Rightarrow> (Inr existing_thread, d)
              | Inr None \<Rightarrow> new_thread_with e participant_ids_set d)
           else new_thread_with e participant_ids_set d)"

text \<open>
  \<open>send_message\<close>. \<open>MessageCreate\<close> wants a non-empty \<open>content\<close>;
  \<open>attachments\<close> is an optional list of strings.
\<close>

definition send_message ::
  "env \<Rightarrow> string \<Rightarrow> string \<Rightarrow> string list option \<Rightarrow> uid \<Rightarrow> database
     \<Rightarrow> (failure + direct_message) \<times> database" where
  "send_message e thread_id content attachments current_user d =
     (if content = [] then (Inl RequestValidationError, d)
      else if \<not> is_participant d thread_id current_user
      then (Inl (HTTPException 403 ''Not a participant in this thread''), d)
      else
        let new_message =
              \<lparr>dm_id = uuid4 e, dm_thread_id = thread_id, dm_sender_id = current_user,
               dm_content = content,
               dm_attachments =
                 JArr (map JStr (case attachments of None \<Rightarrow> [] | Some xs \<Rightarrow> xs)),
               dm_read_by = Some [current_user], dm_created_at = utcnow e\<rparr>
        in case scalar_one_or_none
                  (filter (\<lambda>th. th_id th = thread_id) (direct_message_threads d)) of
             Inl x \<Rightarrow> (Inl (Raised x), d)
           | Inr thread \<Rightarrow>
               (Inr new_message,
                d\<lparr>direct_message_threads :=
                    (case thread of
                       None \<Rightarrow> direct_message_threads d
                     | Some th \<Rightarrow>
                         map (\<lambda>x. if th_id x = thread_id
                                  then x\<lparr>th_updated_at := utcnow e\<rparr> else x)
                           (direct_message_threads d)),
                  direct_messages := direct_messages d @ [new_message]\<rparr>))"

definition mark_message_read ::
  "string \<Rightarrow> string \<Rightarrow> uid \<Rightarrow> database \<Rightarrow> (failure + string) \<times> database" where
  "mark_message_read thread_id message_id current_user d =
     (if \<not> is_participant d thread_id current_user
      then (Inl (HTTPException 403 ''Not a participant in this thread''), d)
      else
        case scalar_one_or_none (find_message d message_id thread_id) of
          Inl x \<Rightarrow> (Inl (Raised x), d)
        | Inr None \<Rightarrow> (Inl (HTTPException 404 ''Message not found''), d)
        | Inr (Some message) \<Rightarrow>
            (Inr ''Message marked as read'',
             if current_user \<notin> set (read_by_or_empty message)
             then commit_read_by message_id thread_id current_user d
             else d))"

section \<open>routes/websocket.py\<close>

text \<open>
  \<open>new_message\<close> and \<open>participant_ids\<close> are local variables of
  \<open>websocket_endpoint\<close>: they keep their value from one turn of \<open>while True\<close> to
  the next, and reading one that was never assigned raises \<open>UnboundLocalError\<close>.
  \<open>None\<close> here means: not assigned yet.
\<close>

record locals =
  new_message :: "direct_message option"
  participant_ids :: "uid list option"

text \<open>
  What \<open>receive_text\<close> followed by \<open>json.loads\<close> gives: the client is gone
  (\<open>WebSocketDisconnect\<close>), the text is not JSON, or a value.
\<close>

datatype inbound =
    Disconnected
  | Undecodable
  | Decoded json

definition error_frame :: "string \<Rightarrow> json" where
  "error_frame m = JObj [(''type'', JStr ''error''), (''message'', JStr m)]"

definition new_message_frame :: "direct_message \<Rightarrow> json \<Rightarrow> uid \<Rightarrow> json \<Rightarrow> json" where
  "new_message_frame nm thread_id user_id content =
     JObj [(''type'', JStr ''new_message''),
           (''message'',
              JObj [(''id'', JStr (dm_id nm)),
                    (''thread_id'', thread_id),
                    (''sender_id'', JStr user_id),
                    (''content'', content),
                    (''attachments'', dm_attachments nm),
                    (''created_at'', JStr (dm_created_at nm))])]"

definition typing_frame :: "json \<Rightarrow> uid \<Rightarrow> json \<Rightarrow> json" where
  "typing_frame thread_id user_id is_typing =
     JObj [(''type'', JStr ''typing''), (''thread_id'', thread_id),
           (''user_id'', JStr user_id), (''is_typing'', is_typing)]"

definition receipt_frame :: "json \<Rightarrow> json \<Rightarrow> uid \<Rightarrow> json" where
  "receipt_frame message_id thread_id user_id =
     JObj [(''type'', JStr ''read_receipt''), (''message_id'', message_id),
           (''thread_id'', thread_id), (''user_id'', JStr user_id)]"

text \<open>
  The block \<open>async for db in get_db():\<close> of the \<open>message\<close> branch, with \<open>n\<close>
  sessions still to come. Its \<open>continue\<close> goes on with the next session of this loop;
  its \<open>break\<close> leaves it. An identifier or a text column bound to a value that is
  not a string is refused by the driver. The \<open>thread_id\<close> of the frame is compared
  with the stored identifiers as the text it is (see the remark on identifiers above).
\<close>

fun save_message ::
  "env \<Rightarrow> ws \<Rightarrow> uid \<Rightarrow> (string \<times> json) list \<Rightarrow> nat \<Rightarrow> locals \<Rightarrow> world
     \<Rightarrow> exn option \<times> locals \<times> world" where
  "save_message e websocket user_id message_data 0 l w = (None, l, w)"
| "save_message e websocket user_id message_data (Suc n) l w =
     (case dict_get message_data ''thread_id'' JNull of
        JStr t \<Rightarrow>
          if \<not> is_participant (store w) t user_id
          then
            (case send_json e websocket (error_frame ''Not a participant in this thread'') w of
               (Some x, w') \<Rightarrow> (Some x, l, w')
             | (None, w') \<Rightarrow> save_message e websocket user_id message_data n l w')
          else
            (case dict_get message_data ''content'' JNull of
               JStr c \<Rightarrow>
                 (let nm = \<lparr>dm_id = uuid4 e, dm_thread_id = t, dm_sender_id = user_id,
                            dm_content = c,
                            dm_attachments = dict_get message_data ''attachments'' (JArr []),
                            dm_read_by = Some [user_id], dm_created_at = utcnow e\<rparr>;
                      d = (store w)\<lparr>direct_messages := direct_messages (store w) @ [nm]\<rparr>
                  in (None,
                      \<lparr>new_message = Some nm, participant_ids = Some (participants_of d t)\<rparr>,
                      w\<lparr>store := d, trace := trace w @ [Committed d]\<rparr>))
             | _ \<Rightarrow> (Some DataError, l, w))
      | _ \<Rightarrow> (Some DataError, l, w))"

definition on_message ::
  "env \<Rightarrow> ws \<Rightarrow> uid \<Rightarrow> (string \<times> json) list \<Rightarrow> locals \<Rightarrow> world
     \<Rightarrow> exn option \<times> locals \<times> world" where
  "on_message e websocket user_id message_data l w =
     (let thread_id = dict_get message_data ''thread_id'' JNull;
          content = dict_get message_data ''content'' JNull
      in if \<not> truthy thread_id \<or> \<not> truthy content
         then (case send_json e websocket (error_frame ''Missing thread_id or content'') w of
                 (x, w') \<Rightarrow> (x, l, w'))
         else
           (case save_message e websocket user_id message_data (db_sessions e) l w of
              (Some x, l', w') \<Rightarrow> (Some x, l', w')
            | (None, l', w') \<Rightarrow>
                (case new_message l' of
                   None \<Rightarrow> (Some UnboundLocalError, l', w')
                 | Some nm \<Rightarrow>
                     (case participant_ids l' of
                        None \<Rightarrow> (Some UnboundLocalError, l', w')
                      | Some ps \<Rightarrow>
                          (None, l',
                           broadcast_to_thread e
                             (new_message_frame nm thread_id user_id content) ps w')))))"

definition on_typing ::
  "env \<Rightarrow> uid \<Rightarrow> (string \<times> json) list \<Rightarrow> locals \<Rightarrow> world
     \<Rightarrow> exn option \<times> locals \<times> world" where
  "on_typing e user_id message_data l w =
     (let thread_id = dict_get message_data ''thread_id'' JNull;
          is_typing = dict_get message_data ''is_typing'' (JBool False)
      in if truthy thread_id
         then
           (case (if db_sessions e = 0 then Inr l
                  else (case thread_id of
                          JStr t \<Rightarrow>
                            Inr (l\<lparr>participant_ids :=
                                     Some (filter (\<lambda>p. p \<noteq> user_id)
                                             (participants_of (store w) t))\<rparr>)
                        | _ \<Rightarrow> Inl DataError)) of
              Inl x \<Rightarrow> (Some x, l, w)
            | Inr l' \<Rightarrow>
                (case participant_ids l' of
                   None \<Rightarrow> (Some UnboundLocalError, l', w)
                 | Some ps \<Rightarrow>
                     (None, l',
                      broadcast_to_thread e (typing_frame thread_id user_id is_typing) ps w)))
         else (None, l, w))"

text \<open>
  The block \<open>async for db in get_db():\<close> of the \<open>read_receipt\<close> branch, entered
  with a session: the message is looked up; if there is one, the reader is appended
  unless present, the session commits, and the participants are read.
\<close>

definition mark_read_ws ::
  "uid \<Rightarrow> json \<Rightarrow> json \<Rightarrow> locals \<Rightarrow> world \<Rightarrow> exn option \<times> locals \<times> world" where
  "mark_read_ws user_id message_id thread_id l w =
     (case (message_id, thread_id) of
        (JStr mid, JStr t) \<Rightarrow>
          (case scalar_one_or_none (find_message (store w) mid t) of
             Inl x \<Rightarrow> (Some x, l, w)
           | Inr None \<Rightarrow> (None, l, w)
           | Inr (Some message) \<Rightarrow>
               (let w' = (if user_id \<notin> set (read_by_or_empty message)
                          then (let d = commit_read_by mid t user_id (store w)
                                in w\<lparr>store := d, trace := trace w @ [Committed d]\<rparr>)
                          else w)
                in (None, l\<lparr>participant_ids := Some (participants_of (store w') t)\<rparr>, w')))
      | _ \<Rightarrow> (Some DataError, l, w))"

definition on_read_receipt ::
  "env \<Rightarrow> uid \<Rightarrow> (string \<times> json) list \<Rightarrow> locals \<Rightarrow> world
     \<Rightarrow> exn option \<times> locals \<times> world" where
  "on_read_receipt e user_id message_data l w =
     (let message_id = dict_get message_data ''message_id'' JNull;
          thread_id = dict_get message_data ''thread_id'' JNull
      in if truthy message_id \<and> truthy thread_id
         then
           (case (if db_sessions e = 0 then (None, l, w)
                  else mark_read_ws user_id message_id thread_id l w) of
              (Some x, l', w') \<Rightarrow> (Some x, l', w')
            | (None, l', w') \<Rightarrow>
                (case participant_ids l' of
                   None \<Rightarrow> (Some UnboundLocalError, l', w')
                 | Some ps \<Rightarrow>
                     (None, l',
                      broadcast_to_thread e (receipt_frame message_id thread_id user_id) ps w')))
         else (None, l, w))"

text \<open>
  One turn of \<open>while True\<close>. The result says whether the turn raised; an exception
  leaves the loop, since the \<open>try\<close> is around it.
\<close>

definition serve_frame ::
  "env \<Rightarrow> ws \<Rightarrow> uid \<Rightarrow> inbound \<Rightarrow> locals \<Rightarrow> world \<Rightarrow> exn option \<times> locals \<times> world" where
  "serve_frame e websocket user_id data l w =
     (case data of
        Disconnected \<Rightarrow> (Some WebSocketDisconnect, l, w)
      | Undecodable \<Rightarrow> (Some JSONDecodeError, l, w)
      | Decoded (JObj message_data) \<Rightarrow>
          (let message_type = dict_get message_data ''type'' JNull
           in if message_type = JStr ''message''
              then on_message e websocket user_id message_data l w
              else if message_type = JStr ''typing''
              then on_typing e user_id message_data l w
              else if message_type = JStr ''read_receipt''
              then on_read_receipt e user_id message_data l w
              else if message_type = JStr ''ping''
              then (case send_json e websocket (JObj [(''type'', JStr ''pong'')]) w of
                      (x, w') \<Rightarrow> (x, l, w'))
              else (None, l, w))
      | Decoded _ \<Rightarrow> (Some AttributeError, l, w))"

text \<open>
  The loop over the frames a connection receives, each with what the surroundings do
  during its turn. \<open>Serving\<close>: the loop waits for the next frame. \<open>Closed\<close>: an
  exception left the loop, was logged, and \<open>finally\<close> took the socket out of the
  registry; what the client sends after that is not read.
\<close>

datatype phase = Serving | Closed

fun serve ::
  "ws \<Rightarrow> uid \<Rightarrow> (env \<times> inbound) list \<Rightarrow> locals \<Rightarrow> world \<Rightarrow> phase \<times> locals \<times> world" where
  "serve websocket user_id [] l w = (Serving, l, w)"
| "serve websocket user_id ((e, data) # rest) l w =
     (case serve_frame e websocket user_id data l w of
        (None, l', w') \<Rightarrow> serve websocket user_id rest l' w'
      | (Some x, l', w') \<Rightarrow> (Closed, l', w'\<lparr>mgr := disconnect websocket user_id (mgr w')\<rparr>))"

text \<open>
  \<open>websocket_endpoint\<close> after \<open>get_user_from_token\<close> (security.py is not among
  the sources; its verdict is the parameter \<open>user\<close>). Without a user the socket is
  closed with code 1008 and nothing is registered.
\<close>

definition websocket_endpoint ::
  "env \<Rightarrow> ws \<Rightarrow> uid option \<Rightarrow> (env \<times> inbound) list \<Rightarrow> world \<Rightarrow> phase \<times> locals \<times> world" where
  "websocket_endpoint e websocket user frames w =
     (let l = \<lparr>new_message = None, participant_ids = None\<rparr>
      in case user of
           None \<Rightarrow> (Closed, l, w)
         | Some user_id \<Rightarrow>
             (let w1 = w\<lparr>mgr := connect websocket user_id (mgr w)\<rparr>
              in case send_json e websocket
                        (JObj [(''type'', JStr ''connection''), (''status'', JStr ''connected''),
                               (''user_id'', JStr user_id), (''timestamp'', JStr (utcnow e))]) w1 of
                   (Some x, w2) \<Rightarrow> (Closed, l, w2\<lparr>mgr := disconnect websocket user_id (mgr w2)\<rparr>)
                 | (None, w2) \<Rightarrow> serve websocket user_id frames l w2))"

section \<open>server.py\<close>

text \<open>
  What \<open>lifespan\<close> does to the connection manager before the application serves:
  \<open>manager.initialize()\<close>, nothing else.
\<close>

definition lifespan_startup :: "env \<Rightarrow> connection_manager \<Rightarrow> connection_manager" where
  "lifespan_startup e m = initialize e m"

section \<open>Notions used in the statements\<close>

text \<open>What one attempt to send \<open>msg\<close> on a connection leaves in the trace.\<close>

definition attempt :: "env \<Rightarrow> json \<Rightarrow> ws \<Rightarrow> event" where
  "attempt e msg c = (if broken e c then SendFailed c msg else Sent c msg)"


text \<open>An event is a call of \<open>send_json\<close> with the payload \<open>msg\<close>.\<close>

fun is_delivery :: "json \<Rightarrow> event \<Rightarrow> bool" where
  "is_delivery msg (Sent c m) = (m = msg)"
| "is_delivery msg (SendFailed c m) = (m = msg)"
| "is_delivery msg (Committed d) = False"
| "is_delivery msg (Published m) = False"

text \<open>
  One message before and after an operation of the user \<open>u\<close>: it is as it was, or
  \<open>u\<close>, absent before, was appended to its \<open>read_by\<close>.
\<close>

definition read_step :: "uid \<Rightarrow> direct_message \<Rightarrow> direct_message \<Rightarrow> bool" where
  "read_step u m m' =
     (m' = m \<or> (u \<notin> set (read_by_or_empty m)
                \<and> m' = m\<lparr>dm_read_by := Some (read_by_or_empty m @ [u])\<rparr>))"

text \<open>The same message later: every reader it had is still there.\<close>

definition readers_kept :: "direct_message \<Rightarrow> direct_message \<Rightarrow> bool" where
  "readers_kept m m' =
     (dm_id m' = dm_id m \<and> dm_thread_id m' = dm_thread_id m
      \<and> set (read_by_or_empty m) \<subseteq> set (read_by_or_empty m'))"

text \<open>
  The table \<open>direct_messages\<close> before and after: no row is lost or moved, and each
  row that was there is related as said (by one operation of \<open>u\<close>, or over time).
\<close>

definition step_ok :: "uid \<Rightarrow> direct_message list \<Rightarrow> direct_message list \<Rightarrow> bool" where
  "step_ok u ms ms' =
     (length ms \<le> length ms' \<and> list_all2 (read_step u) ms (take (length ms) ms'))"

definition reads_grow :: "direct_message list \<Rightarrow> direct_message list \<Rightarrow> bool" where
  "reads_grow ms ms' =
     (length ms \<le> length ms' \<and> list_all2 readers_kept ms (take (length ms) ms'))"

text \<open>
  The operations that touch \<open>read_by\<close>: a frame handled on some connection (with the
  local variables that connection has at that moment), or a call of the REST route
  \<open>mark_message_read\<close>.
\<close>

datatype call =
    Frame env ws uid locals inbound
  | MarkRead string string uid

fun caller :: "call \<Rightarrow> uid" where
  "caller (Frame e websocket user_id l data) = user_id"
| "caller (MarkRead thread_id message_id current_user) = current_user"

fun perform :: "call \<Rightarrow> world \<Rightarrow> world" where
  "perform (Frame e websocket user_id l data) w =
     snd (snd (serve_frame e websocket user_id data l w))"
| "perform (MarkRead thread_id message_id current_user) w =
     w\<lparr>store := snd (mark_message_read thread_id message_id current_user (store w))\<rparr>"

section \<open>Example states\<close>

definition env0 :: env where
  "env0 = \<lparr>broken = (\<lambda>c. False), redis_up = True, db_sessions = 1,
           uuid4 = ''M1'', utcnow = ''2024-01-02T00:00:00+00:00''\<rparr>"

definition thread_T1 :: direct_message_thread where
  "thread_T1 = \<lparr>th_id = ''T1'', th_created_at = ''2024-01-01T00:00:00+00:00'',
                th_updated_at = ''2024-01-01T00:00:00+00:00''\<rparr>"

definition thread_T2 :: direct_message_thread where
  "thread_T2 = \<lparr>th_id = ''T2'', th_created_at = ''2024-01-01T06:00:00+00:00'',
                th_updated_at = ''2024-01-01T06:00:00+00:00''\<rparr>"

definition thread_T3 :: direct_message_thread where
  "thread_T3 = \<lparr>th_id = ''T3'', th_created_at = ''2024-01-01T12:00:00+00:00'',
                th_updated_at = ''2024-01-01T12:00:00+00:00''\<rparr>"

definition fresh_locals :: locals where
  "fresh_locals = \<lparr>new_message = None, participant_ids = None\<rparr>"

definition ping_frame :: inbound where
  "ping_frame = Decoded (JObj [(''type'', JStr ''ping'')])"

text \<open>U1 is not in T1; U1 has one socket, 1, on this instance.\<close>

definition db_outsider :: database where
  "db_outsider = \<lparr>users = [''U1'', ''U2'', ''U3''], direct_message_threads = [thread_T1],
                  thread_participants = [(''T1'', ''U2''), (''T1'', ''U3'')],
                  direct_messages = []\<rparr>"

definition registry_A :: connection_manager where
  "registry_A = \<lparr>active_connections = [''U1'' \<mapsto> [1]], redis = True, pubsub = True\<rparr>"

definition world_outsider :: world where
  "world_outsider = \<lparr>store = db_outsider, mgr = registry_A, trace = []\<rparr>"

definition hello_frame :: inbound where
  "hello_frame = Decoded (JObj [(''type'', JStr ''message''), (''thread_id'', JStr ''T1''),
                                (''content'', JStr ''hello'')])"

text \<open>A frame of a kind the endpoint has no branch for.\<close>

definition subscribe_frame :: inbound where
  "subscribe_frame = Decoded (JObj [(''type'', JStr ''subscribe''), (''thread_id'', JStr ''T1'')])"

text \<open>U1 is in T2 with U3, and not in T1; both have a socket on this instance.\<close>

definition db_two_threads :: database where
  "db_two_threads =
     \<lparr>users = [''U1'', ''U2'', ''U3''], direct_message_threads = [thread_T1, thread_T2],
      thread_participants = [(''T1'', ''U2''), (''T1'', ''U3''),
                             (''T2'', ''U1''), (''T2'', ''U3'')],
      direct_messages = []\<rparr>"

definition world_two_threads :: world where
  "world_two_threads =
     \<lparr>store = db_two_threads,
      mgr = \<lparr>active_connections = [''U1'' \<mapsto> [1], ''U3'' \<mapsto> [3]],
             redis = True, pubsub = True\<rparr>,
      trace = []\<rparr>"

definition first_frame :: inbound where
  "first_frame = Decoded (JObj [(''type'', JStr ''message''), (''thread_id'', JStr ''T2''),
                                (''content'', JStr ''first'')])"

definition message_first :: direct_message where
  "message_first = \<lparr>dm_id = ''M1'', dm_thread_id = ''T2'', dm_sender_id = ''U1'',
                    dm_content = ''first'', dm_attachments = JArr [],
                    dm_read_by = Some [''U1''],
                    dm_created_at = ''2024-01-02T00:00:00+00:00''\<rparr>"

text \<open>
  U1 and U2 are the participants of T1. U1's socket 1 is registered on instance A, U2's
  only socket 2 on instance B.
\<close>

definition db_pair :: database where
  "db_pair = \<lparr>users = [''U1'', ''U2'', ''U3''], direct_message_threads = [thread_T1],
              thread_participants = [(''T1'', ''U1''), (''T1'', ''U2'')],
              direct_messages = []\<rparr>"

definition registry_B :: connection_manager where
  "registry_B = \<lparr>active_connections = [''U2'' \<mapsto> [2]], redis = True, pubsub = True\<rparr>"

definition world_A :: world where
  "world_A = \<lparr>store = db_pair, mgr = registry_A, trace = []\<rparr>"

definition world_B :: world where
  "world_B = \<lparr>store = db_pair, mgr = registry_B, trace = []\<rparr>"

definition hi_data :: "(string \<times> json) list" where
  "hi_data = [(''type'', JStr ''message''), (''thread_id'', JStr ''T1''),
              (''content'', JStr ''hi'')]"

definition message_M1 :: direct_message where
  "message_M1 = \<lparr>dm_id = ''M1'', dm_thread_id = ''T1'', dm_sender_id = ''U1'',
                 dm_content = ''hi'', dm_attachments = JArr [], dm_read_by = Some [''U1''],
                 dm_created_at = ''2024-01-02T00:00:00+00:00''\<rparr>"

text \<open>Both sockets of the pair on one instance, for local delivery.\<close>

definition world_local :: world where
  "world_local = \<lparr>store = db_pair,
                   mgr = \<lparr>active_connections = [''U1'' \<mapsto> [1], ''U2'' \<mapsto> [2]],
                          redis = True, pubsub = True\<rparr>,
                   trace = []\<rparr>"

text \<open>T1 is the two-party thread of U1 and U2; T2 has U3 as well.\<close>

definition db_two_and_three :: database where
  "db_two_and_three =
     \<lparr>users = [''U1'', ''U2'', ''U3''], direct_message_threads = [thread_T1, thread_T2],
      thread_participants = [(''T1'', ''U1''), (''T1'', ''U2''),
                             (''T2'', ''U1''), (''T2'', ''U2''), (''T2'', ''U3'')],
      direct_messages = []\<rparr>"

text \<open>Two group threads, T2 with U3 and T3 with U4, both with U1 and U2 in them.\<close>

definition db_two_groups :: database where
  "db_two_groups =
     \<lparr>users = [''U1'', ''U2'', ''U3'', ''U4''],
      direct_message_threads = [thread_T2, thread_T3],
      thread_participants = [(''T2'', ''U1''), (''T2'', ''U2''), (''T2'', ''U3''),
                             (''T3'', ''U1''), (''T3'', ''U2''), (''T3'', ''U4'')],
      direct_messages = []\<rparr>"



text \<open>T1 holds the message M1 of U1, not read by U2 yet.\<close>

definition db_unread :: database where
  "db_unread = db_pair\<lparr>direct_messages := [message_M1]\<rparr>"

text \<open>
  T1 holds two messages of U1: M0, a row whose \<open>read_by\<close> is \<open>NULL\<close>, and M1,
  which has its sender as reader, as every message the routes create.
\<close>

definition message_M0 :: direct_message where
  "message_M0 = \<lparr>dm_id = ''M0'', dm_thread_id = ''T1'', dm_sender_id = ''U1'',
                 dm_content = ''old'', dm_attachments = JNull, dm_read_by = None,
                 dm_created_at = ''2023-12-31T00:00:00+00:00''\<rparr>"

definition db_mixed :: database where
  "db_mixed = db_pair\<lparr>direct_messages := [message_M0, message_M1]\<rparr>"

definition world_mixed :: world where
  "world_mixed = \<lparr>store = db_mixed, mgr = registry_B, trace = []\<rparr>"

definition receipt_M1 :: inbound where
  "receipt_M1 = Decoded (JObj [(''type'', JStr ''read_receipt''), (''message_id'', JStr ''M1''),
                               (''thread_id'', JStr ''T1'')])"

definition receipt_M0 :: inbound where
  "receipt_M0 = Decoded (JObj [(''type'', JStr ''read_receipt''), (''message_id'', JStr ''M0''),
                               (''thread_id'', JStr ''T1'')])"

section \<open>The connection registry\<close>

lemma send_to_connections_result:
  "send_to_connections e msg cs (dis, w) =
     (foldl (\<lambda>d c. set_add c d) dis (filter (broken e) cs),
      w\<lparr>trace := trace w @ map (attempt e msg) cs\<rparr>)"
  by (induction cs arbitrary: dis w) (simp_all add: send_json_def attempt_def)









lemma send_personal_message_effect:
  "\<exists>cs. trace (send_personal_message e msg u w) = trace w @ map (attempt e msg) cs
        \<and> store (send_personal_message e msg u w) = store w"
proof (cases "active_connections (mgr w) u")
  case None
  then have "send_personal_message e msg u w = w"
    by (simp add: send_personal_message_def)
  then have "trace (send_personal_message e msg u w) = trace w @ map (attempt e msg) []
             \<and> store (send_personal_message e msg u w) = store w"
    by simp
  then show ?thesis by blast
next
  case (Some cs)
  then have "trace (send_personal_message e msg u w) = trace w @ map (attempt e msg) cs
             \<and> store (send_personal_message e msg u w) = store w"
    by (simp add: send_personal_message_def send_to_connections_result)
  then show ?thesis by blast
qed

lemma broadcast_to_thread_effect:
  "\<exists>cs. trace (broadcast_to_thread e msg us w) = trace w @ map (attempt e msg) cs
        \<and> store (broadcast_to_thread e msg us w) = store w"
proof (induction us arbitrary: w)
  case Nil
  have "trace (broadcast_to_thread e msg [] w) = trace w @ map (attempt e msg) []
        \<and> store (broadcast_to_thread e msg [] w) = store w"
    by simp
  then show ?case by blast
next
  case (Cons u us)
  obtain cs1 where a: "trace (send_personal_message e msg u w) = trace w @ map (attempt e msg) cs1"
      and b: "store (send_personal_message e msg u w) = store w"
    using send_personal_message_effect by blast
  obtain cs2 where c: "trace (broadcast_to_thread e msg us (send_personal_message e msg u w))
                         = trace (send_personal_message e msg u w) @ map (attempt e msg) cs2"
      and d: "store (broadcast_to_thread e msg us (send_personal_message e msg u w))
                = store (send_personal_message e msg u w)"
    using Cons.IH by blast
  have "trace (broadcast_to_thread e msg (u # us) w) = trace w @ map (attempt e msg) (cs1 @ cs2)
        \<and> store (broadcast_to_thread e msg (u # us) w) = store w"
    using a b c d by simp
  then show ?case by blast
qed

lemma is_delivery_attempt: "is_delivery msg (attempt e msg c)"
  by (simp add: attempt_def)

lemma broadcast_to_thread_store: "store (broadcast_to_thread e msg us w) = store w"
  using broadcast_to_thread_effect [of e msg us w] by auto

section \<open>The message branch\<close>

text \<open>
  C4. An accepted \<open>message\<close> frame: its \<open>thread_id\<close> and \<open>content\<close> are
  non-empty strings, the sender is a participant of the thread, and \<open>get_db\<close> yields a
  session. The turn does not raise. What it adds to the trace starts with the commit, and
  the committed tables are the final ones, with the new message as last row of
  \<open>direct_messages\<close>; every event after the commit is a call of \<open>send_json\<close> with
  the \<open>new_message\<close> frame of that message. So no such call comes before the
  commit.
\<close>

theorem persist_before_broadcast:
  assumes kind: "dict_get message_data ''type'' JNull = JStr ''message''"
    and thread: "dict_get message_data ''thread_id'' JNull = JStr t" "t \<noteq> []"
    and content: "dict_get message_data ''content'' JNull = JStr c" "c \<noteq> []"
    and member: "is_participant (store w) t user_id"
    and session: "0 < db_sessions e"
  shows "\<exists>l' w' evs.
           serve_frame e websocket user_id (Decoded (JObj message_data)) l w = (None, l', w')
         \<and> direct_messages (store w') = direct_messages (store w) @
              [\<lparr>dm_id = uuid4 e, dm_thread_id = t, dm_sender_id = user_id, dm_content = c,
                dm_attachments = dict_get message_data ''attachments'' (JArr []),
                dm_read_by = Some [user_id], dm_created_at = utcnow e\<rparr>]
         \<and> trace w' = trace w @ Committed (store w') # evs
         \<and> list_all
              (is_delivery
                 (new_message_frame
                    \<lparr>dm_id = uuid4 e, dm_thread_id = t, dm_sender_id = user_id, dm_content = c,
                      dm_attachments = dict_get message_data ''attachments'' (JArr []),
                      dm_read_by = Some [user_id], dm_created_at = utcnow e\<rparr>
                    (JStr t) user_id (JStr c)))
              evs"
proof -
  let ?nm = "\<lparr>dm_id = uuid4 e, dm_thread_id = t, dm_sender_id = user_id, dm_content = c,
              dm_attachments = dict_get message_data ''attachments'' (JArr []),
              dm_read_by = Some [user_id], dm_created_at = utcnow e\<rparr>"
  let ?d = "(store w)\<lparr>direct_messages := direct_messages (store w) @ [?nm]\<rparr>"
  let ?w1 = "w\<lparr>store := ?d, trace := trace w @ [Committed ?d]\<rparr>"
  let ?l1 = "\<lparr>new_message = Some ?nm, participant_ids = Some (participants_of ?d t)\<rparr>"
  let ?frame = "new_message_frame ?nm (JStr t) user_id (JStr c)"
  obtain n where n: "db_sessions e = Suc n"
    using session by (cases "db_sessions e") auto
  have saved: "save_message e websocket user_id message_data (db_sessions e) l w = (None, ?l1, ?w1)"
    using thread content member by (simp add: n Let_def)
  have handled: "serve_frame e websocket user_id (Decoded (JObj message_data)) l w
                   = (None, ?l1, broadcast_to_thread e ?frame (participants_of ?d t) ?w1)"
    using kind thread content saved by (simp add: serve_frame_def on_message_def Let_def)
  obtain cs where tr: "trace (broadcast_to_thread e ?frame (participants_of ?d t) ?w1)
                         = trace ?w1 @ map (attempt e ?frame) cs"
      and st: "store (broadcast_to_thread e ?frame (participants_of ?d t) ?w1) = store ?w1"
    using broadcast_to_thread_effect by blast
  have "list_all (is_delivery ?frame) (map (attempt e ?frame) cs)"
    by (simp add: list_all_iff is_delivery_attempt)
  then show ?thesis
    using handled tr st by simp
qed

theorem persist_before_broadcast_witness:
  "dict_get hi_data ''type'' JNull = JStr ''message''
   \<and> dict_get hi_data ''thread_id'' JNull = JStr ''T1''
   \<and> dict_get hi_data ''content'' JNull = JStr ''hi''
   \<and> is_participant (store world_local) ''T1'' ''U1''
   \<and> 0 < db_sessions env0
   \<and> fst (serve_frame env0 1 ''U1'' (Decoded (JObj hi_data)) fresh_locals world_local) = None
   \<and> trace (snd (snd (serve_frame env0 1 ''U1'' (Decoded (JObj hi_data)) fresh_locals world_local)))
       = [Committed db_unread,
          Sent 1 (new_message_frame message_M1 (JStr ''T1'') ''U1'' (JStr ''hi'')),
          Sent 2 (new_message_frame message_M1 (JStr ''T1'') ''U1'' (JStr ''hi''))]"
  using persist_before_broadcast
          [of hi_data "''T1''" "''hi''" world_local "''U1''" env0 1 fresh_locals]
  by (simp add: hi_data_def dict_get_def world_local_def db_pair_def is_participant_def
        env0_def serve_frame_def on_message_def fresh_locals_def participants_of_def
        send_personal_message_def send_json_def db_unread_def message_M1_def Let_def)

section \<open>Read receipts\<close>

lemma send_json_store: "store (snd (send_json e c msg w)) = store w"
  by (simp add: send_json_def)

lemma step_ok_refl: "step_ok u ms ms"
  by (simp add: step_ok_def read_step_def list_all2_same)

lemma step_ok_append: "step_ok u ms (ms @ [m])"
  by (simp add: step_ok_def read_step_def list_all2_same)

lemma step_ok_commit_read_by:
  "step_ok u (direct_messages d) (direct_messages (commit_read_by mid t u d))"
proof -
  have "read_step u m (if dm_id m = mid \<and> dm_thread_id m = t \<and> read_by_or_empty m = []
                        then m\<lparr>dm_read_by := Some [u]\<rparr> else m)" for m
    by (simp add: read_step_def)
  then show ?thesis
    by (simp add: step_ok_def commit_read_by_def list_all2_map2 list_all2_same)
qed

lemma save_message_store:
  "save_message e websocket u message_data n l w = (x, l', w') \<Longrightarrow>
   step_ok u (direct_messages (store w)) (direct_messages (store w'))"
proof (induction n arbitrary: w)
  case 0
  then show ?case by (simp add: step_ok_refl)
next
  case (Suc n)
  show ?case
  proof (cases "dict_get message_data ''thread_id'' JNull")
    case (JStr t)
    show ?thesis
    proof (cases "is_participant (store w) t u")
      case True
      then show ?thesis
        using Suc.prems JStr
        by (cases "dict_get message_data ''content'' JNull")
           (auto simp: Let_def step_ok_refl step_ok_append)
    next
      case False
      show ?thesis
      proof (cases "broken e websocket")
        case True
        then show ?thesis
          using Suc.prems JStr False by (auto simp: send_json_def step_ok_refl)
      next
        case nb: False
        let ?w1 = "w\<lparr>trace := trace w @ [Sent websocket (error_frame ''Not a participant in this thread'')]\<rparr>"
        have "save_message e websocket u message_data n l ?w1 = (x, l', w')"
          using Suc.prems JStr False nb by (simp add: send_json_def)
        from Suc.IH [OF this] show ?thesis by simp
      qed
    qed
  qed (use Suc.prems in \<open>auto simp: step_ok_refl\<close>)
qed

lemma on_message_store:
  assumes "on_message e websocket u message_data l w = (x, l', w')"
  shows "step_ok u (direct_messages (store w)) (direct_messages (store w'))"
proof (cases "\<not> truthy (dict_get message_data ''thread_id'' JNull)
              \<or> \<not> truthy (dict_get message_data ''content'' JNull)")
  case True
  then have "store w' = store w"
    using assms by (auto simp: on_message_def Let_def send_json_def split: if_splits)
  then show ?thesis by (simp add: step_ok_refl)
next
  case False
  obtain x1 l1 w1 where s: "save_message e websocket u message_data (db_sessions e) l w = (x1, l1, w1)"
    by (metis prod_cases3)
  have "store w' = store w1"
    using assms False s
    by (auto simp: on_message_def Let_def broadcast_to_thread_store split: option.splits)
  then show ?thesis using save_message_store [OF s] by simp
qed

lemma on_typing_store:
  "on_typing e u message_data l w = (x, l', w') \<Longrightarrow> store w' = store w"
  by (auto simp: on_typing_def Let_def broadcast_to_thread_store
           split: if_splits sum.splits option.splits json.splits)

lemma mark_read_ws_store:
  assumes "mark_read_ws u message_id thread_id l w = (x, l', w')"
  shows "step_ok u (direct_messages (store w)) (direct_messages (store w'))"
proof (cases "\<exists>mid t. message_id = JStr mid \<and> thread_id = JStr t")
  case True
  then obtain mid t where ids: "message_id = JStr mid" "thread_id = JStr t" by blast
  show ?thesis
  proof (cases "scalar_one_or_none (find_message (store w) mid t)")
    case (Inl a)
    then show ?thesis using assms ids by (auto simp: mark_read_ws_def step_ok_refl)
  next
    case (Inr r)
    show ?thesis
    proof (cases r)
      case None
      then show ?thesis using assms ids Inr by (auto simp: mark_read_ws_def step_ok_refl)
    next
      case (Some message)
      show ?thesis
      proof (cases "u \<in> set (read_by_or_empty message)")
        case True
        then show ?thesis
          using assms ids Inr Some by (auto simp: mark_read_ws_def step_ok_refl)
      next
        case False
        then have "store w' = commit_read_by mid t u (store w)"
          using assms ids Inr Some by (auto simp: mark_read_ws_def Let_def)
        then show ?thesis
          using step_ok_commit_read_by by simp
      qed
    qed
  qed
next
  case False
  then have "store w' = store w"
    using assms by (auto simp: mark_read_ws_def split: json.splits)
  then show ?thesis by (simp add: step_ok_refl)
qed

lemma on_read_receipt_store:
  assumes "on_read_receipt e u message_data l w = (x, l', w')"
  shows "step_ok u (direct_messages (store w)) (direct_messages (store w'))"
proof (cases "truthy (dict_get message_data ''message_id'' JNull)
              \<and> truthy (dict_get message_data ''thread_id'' JNull) \<and> db_sessions e \<noteq> 0")
  case True
  obtain x1 l1 w1 where m: "mark_read_ws u (dict_get message_data ''message_id'' JNull)
                              (dict_get message_data ''thread_id'' JNull) l w = (x1, l1, w1)"
    by (metis prod_cases3)
  have "store w' = store w1"
    using assms True m
    by (auto simp: on_read_receipt_def Let_def broadcast_to_thread_store split: option.splits)
  then show ?thesis using mark_read_ws_store [OF m] by simp
next
  case False
  then have "store w' = store w"
    using assms
    by (auto simp: on_read_receipt_def Let_def broadcast_to_thread_store
             split: option.splits if_splits)
  then show ?thesis by (simp add: step_ok_refl)
qed

lemma serve_frame_store:
  assumes "serve_frame e websocket u data l w = (x, l', w')"
  shows "step_ok u (direct_messages (store w)) (direct_messages (store w'))"
proof (cases data)
  case Disconnected
  then show ?thesis using assms by (auto simp: serve_frame_def step_ok_refl)
next
  case Undecodable
  then show ?thesis using assms by (auto simp: serve_frame_def step_ok_refl)
next
  case (Decoded j)
  show ?thesis
  proof (cases j)
    case (JObj message_data)
    consider (message) "dict_get message_data ''type'' JNull = JStr ''message''"
      | (typing) "dict_get message_data ''type'' JNull = JStr ''typing''"
      | (receipt) "dict_get message_data ''type'' JNull = JStr ''read_receipt''"
      | (ping) "dict_get message_data ''type'' JNull = JStr ''ping''"
      | (other) "dict_get message_data ''type'' JNull \<noteq> JStr ''message''"
                "dict_get message_data ''type'' JNull \<noteq> JStr ''typing''"
                "dict_get message_data ''type'' JNull \<noteq> JStr ''read_receipt''"
                "dict_get message_data ''type'' JNull \<noteq> JStr ''ping''"
      by blast
    then show ?thesis
    proof cases
      case message
      then have "on_message e websocket u message_data l w = (x, l', w')"
        using assms Decoded JObj by (simp add: serve_frame_def)
      then show ?thesis by (rule on_message_store)
    next
      case typing
      then have "on_typing e u message_data l w = (x, l', w')"
        using assms Decoded JObj by (simp add: serve_frame_def)
      then show ?thesis using on_typing_store by (simp add: step_ok_refl)
    next
      case receipt
      then have "on_read_receipt e u message_data l w = (x, l', w')"
        using assms Decoded JObj by (simp add: serve_frame_def)
      then show ?thesis by (rule on_read_receipt_store)
    next
      case ping
      then have "store w' = store w"
        using assms Decoded JObj by (auto simp: serve_frame_def send_json_def split: if_splits)
      then show ?thesis by (simp add: step_ok_refl)
    next
      case other
      then have "store w' = store w"
        using assms Decoded JObj by (simp add: serve_frame_def)
      then show ?thesis by (simp add: step_ok_refl)
    qed
  qed (use assms Decoded in \<open>auto simp: serve_frame_def step_ok_refl\<close>)
qed

lemma mark_message_read_store:
  "step_ok u (direct_messages d) (direct_messages (snd (mark_message_read t mid u d)))"
proof (cases "scalar_one_or_none (find_message d mid t)")
  case (Inl a)
  then show ?thesis by (simp add: mark_message_read_def step_ok_refl)
next
  case (Inr r)
  show ?thesis
  proof (cases r)
    case None
    then show ?thesis using Inr by (simp add: mark_message_read_def step_ok_refl)
  next
    case (Some message)
    show ?thesis
    proof (cases "u \<in> set (read_by_or_empty message) \<or> \<not> is_participant d t u")
      case True
      then show ?thesis using Inr Some by (auto simp: mark_message_read_def step_ok_refl)
    next
      case False
      then have "snd (mark_message_read t mid u d) = commit_read_by mid t u d"
        using Inr Some by (simp add: mark_message_read_def)
      then show ?thesis
        using step_ok_commit_read_by by simp
    qed
  qed
qed

lemma perform_step: "step_ok (caller c) (direct_messages (store w)) (direct_messages (store (perform c w)))"
proof (cases c)
  case (Frame e websocket u l data)
  obtain x l' w' where "serve_frame e websocket u data l w = (x, l', w')"
    by (metis prod_cases3)
  then show ?thesis using serve_frame_store Frame by fastforce
next
  case (MarkRead t mid u)
  then show ?thesis using mark_message_read_store by simp
qed

lemma read_step_kept: "read_step u m m' \<Longrightarrow> readers_kept m m'"
  by (auto simp: read_step_def readers_kept_def read_by_or_empty_def)

lemma step_ok_grow: "step_ok u ms ms' \<Longrightarrow> reads_grow ms ms'"
  by (auto simp: step_ok_def reads_grow_def intro: list_all2_mono read_step_kept)

lemma reads_grow_refl: "reads_grow ms ms"
  by (simp add: reads_grow_def readers_kept_def list_all2_same)

lemma readers_kept_trans: "readers_kept a b \<Longrightarrow> readers_kept b c \<Longrightarrow> readers_kept a c"
  by (auto simp: readers_kept_def)

lemma reads_grow_trans:
  assumes "reads_grow xs ys" and "reads_grow ys zs"
  shows "reads_grow xs zs"
proof -
  have len: "length xs \<le> length ys" "length ys \<le> length zs"
    using assms by (simp_all add: reads_grow_def)
  have a: "list_all2 readers_kept xs (take (length xs) ys)"
    using assms(1) by (simp add: reads_grow_def)
  have "list_all2 readers_kept (take (length xs) ys) (take (length xs) (take (length ys) zs))"
    using assms(2) by (simp add: reads_grow_def list_all2_takeI del: take_take)
  then have b: "list_all2 readers_kept (take (length xs) ys) (take (length xs) zs)"
    using len by (simp add: min_def)
  have "list_all2 readers_kept xs (take (length xs) zs)"
    using a b readers_kept_trans by (rule list_all2_trans [rotated 1])
  then show ?thesis using len by (simp add: reads_grow_def)
qed

lemma fold_perform_grow:
  "reads_grow (direct_messages (store w)) (direct_messages (store (fold perform cs w)))"
proof (induction cs arbitrary: w)
  case Nil
  then show ?case by (simp add: reads_grow_refl)
next
  case (Cons c cs)
  have "reads_grow (direct_messages (store w)) (direct_messages (store (perform c w)))"
    using perform_step by (rule step_ok_grow)
  then show ?case using Cons.IH [of "perform c w"] by (auto intro: reads_grow_trans)
qed

text \<open>
  C7. Take any state and any operation \<open>c\<close> on it: a frame of any kind handled on
  any connection, or a call of the REST route \<open>mark_message_read\<close>. Every message
  that was in the store is still there, at its place, and is either exactly as before or
  has the caller, who was not in its \<open>read_by\<close>, appended to it. Over any sequence
  \<open>cs\<close> of such operations every message keeps its identifier and thread, and
  the readers it had are among the readers it has afterwards. (What the code writes is
  less than the claim allows: a reader reaches the store only when \<open>read_by\<close> was
  empty; the claim is about what is never lost.)
\<close>

theorem read_by_only_grows:
  "step_ok (caller c) (direct_messages (store w)) (direct_messages (store (perform c w)))
   \<and> reads_grow (direct_messages (store w)) (direct_messages (store (fold perform cs w)))"
  using perform_step fold_perform_grow by blast

theorem read_by_only_grows_witness:
  "direct_messages (store (perform (Frame env0 2 ''U2'' fresh_locals receipt_M1) world_mixed))
     = [message_M0, message_M1]
   \<and> direct_messages
         (store (fold perform
                   [Frame env0 2 ''U2'' fresh_locals receipt_M1,
                    MarkRead ''T1'' ''M0'' ''U2'',
                    Frame env0 1 ''U1'' fresh_locals receipt_M0]
                   world_mixed))
     = [message_M0\<lparr>dm_read_by := Some [''U2'']\<rparr>, message_M1]
   \<and> reads_grow [message_M0, message_M1]
         [message_M0\<lparr>dm_read_by := Some [''U2'']\<rparr>, message_M1]"
  using read_by_only_grows
          [of "Frame env0 2 ''U2'' fresh_locals receipt_M1" world_mixed
              "[Frame env0 2 ''U2'' fresh_locals receipt_M1,
                MarkRead ''T1'' ''M0'' ''U2'',
                Frame env0 1 ''U1'' fresh_locals receipt_M0]"]
  by (simp add: serve_frame_def on_read_receipt_def mark_read_ws_def receipt_M1_def
        receipt_M0_def dict_get_def env0_def world_mixed_def db_mixed_def db_pair_def
        message_M1_def message_M0_def find_message_def scalar_one_or_none_def
        read_by_or_empty_def commit_read_by_def broadcast_to_thread_store
        mark_message_read_def is_participant_def Let_def)

section \<open>Creating threads\<close>

lemma distinct_set_add: "distinct xs \<Longrightarrow> distinct (set_add x xs)"
  by (simp add: set_add_def)

lemma set_set_add: "set (set_add x xs) = insert x (set xs)"
  by (auto simp: set_add_def)

text \<open>The rows of one thread whose user is among the requested participants.\<close>

lemma rows_of_thread_subset:
  "set (filter (\<lambda>r. fst r = t) (filter (\<lambda>r. snd r \<in> S) rows)) \<subseteq> {t} \<times> S"
  by auto

lemma in_dedup_subquery_iff:
  assumes "distinct (thread_participants d)" and "distinct ps" and "length ps = 2"
  shows "t \<in> set (dedup_subquery d ps) \<longleftrightarrow> (\<forall>u \<in> set ps. (t, u) \<in> set (thread_participants d))"
proof -
  let ?rows = "filter (\<lambda>r. snd r \<in> set ps) (thread_participants d)"
  let ?R = "filter (\<lambda>r. fst r = t) ?rows"
  have dR: "distinct ?R" using assms(1) by simp
  have sub: "set ?R \<subseteq> {t} \<times> set ps" by auto
  have cardS: "card ({t} \<times> set ps) = 2"
    using assms(2,3) by (simp add: card_cartesian_product distinct_card)
  have ne: "set ps \<noteq> {}" using assms(3) by auto
  have mem: "t \<in> set (dedup_subquery d ps) \<longleftrightarrow> t \<in> fst ` set ?rows \<and> length ?R = 2"
    by (auto simp: dedup_subquery_def Let_def)
  show ?thesis
  proof
    assume "t \<in> set (dedup_subquery d ps)"
    then have "length ?R = 2" using mem by simp
    moreover have "card (set ?R) = length ?R" using dR by (rule distinct_card)
    ultimately have "card (set ?R) = card ({t} \<times> set ps)"
      using cardS by (simp only:)
    then have "set ?R = {t} \<times> set ps"
      using sub by (intro card_subset_eq) auto
    then show "\<forall>u \<in> set ps. (t, u) \<in> set (thread_participants d)"
      by auto
  next
    assume all: "\<forall>u \<in> set ps. (t, u) \<in> set (thread_participants d)"
    then have "set ?R = {t} \<times> set ps" by auto
    then have "length ?R = 2"
      using dR cardS by (metis distinct_card)
    moreover have "t \<in> fst ` set ?rows"
    proof -
      obtain u where u: "u \<in> set ps" using assms(3) by (cases ps) auto
      then have "(t, u) \<in> set ?rows" using all by simp
      then show ?thesis by (rule image_eqI [rotated]) simp
    qed
    ultimately show "t \<in> set (dedup_subquery d ps)" using mem by simp
  qed
qed

lemma scalar_one_or_none_Some_mem: "scalar_one_or_none xs = Inr (Some x) \<Longrightarrow> x \<in> set xs"
  by (auto simp: scalar_one_or_none_def split: list.splits)

lemma new_thread_with_member:
  "u \<in> set ps \<Longrightarrow> new_thread_with e ps d = (Inr th, d') \<Longrightarrow> is_participant d' (th_id th) u"
  by (auto simp: new_thread_with_def Let_def is_participant_def)

text \<open>
  C10. \<open>create_thread\<close> puts the caller into \<open>participant_ids_set\<close> before it
  checks that the users exist, before it looks for an existing thread and before it
  creates one. So, the rows of \<open>thread_participants\<close> being distinct (its primary
  key), whatever thread the route returns, found or new, has the caller among its
  participants in the store the route leaves.
\<close>

theorem create_thread_includes_caller:
  assumes keys: "distinct (thread_participants d)"
    and ret: "create_thread e pids current_user d = (Inr th, d')"
  shows "is_participant d' (th_id th) current_user"
proof -
  let ?ps = "set_add current_user (remdups pids)"
  have cu: "current_user \<in> set ?ps" by (simp add: set_set_add)
  have dps: "distinct ?ps" by (simp add: distinct_set_add)
  show ?thesis
  proof (cases "length ?ps = 2")
    case False
    then have "new_thread_with e ?ps d = (Inr th, d')"
      using ret by (auto simp: create_thread_def Let_def split: if_splits)
    then show ?thesis using cu by (rule new_thread_with_member [rotated])
  next
    case True
    let ?found = "filter (\<lambda>x. th_id x \<in> set (dedup_subquery d ?ps)) (direct_message_threads d)"
    show ?thesis
    proof (cases "scalar_one_or_none ?found")
      case (Inl x)
      then show ?thesis using ret True by (auto simp: create_thread_def Let_def split: if_splits)
    next
      case (Inr r)
      show ?thesis
      proof (cases r)
        case None
        then have "new_thread_with e ?ps d = (Inr th, d')"
          using ret True Inr by (auto simp: create_thread_def Let_def split: if_splits)
        then show ?thesis using cu by (rule new_thread_with_member [rotated])
      next
        case (Some existing)
        then have eq: "th = existing" "d' = d"
          using ret True Inr by (auto simp: create_thread_def Let_def split: if_splits)
        have "scalar_one_or_none ?found = Inr (Some existing)"
          using Inr Some by (simp only:)
        then have "existing \<in> set ?found"
          by (rule scalar_one_or_none_Some_mem)
        then have "th_id existing \<in> set (dedup_subquery d ?ps)" by simp
        then have "(th_id existing, current_user) \<in> set (thread_participants d)"
          using in_dedup_subquery_iff [OF keys dps True] cu by blast
        then show ?thesis using eq by (simp add: is_participant_def)
      qed
    qed
  qed
qed

theorem create_thread_includes_caller_witness:
  "distinct (thread_participants db_pair)
   \<and> create_thread (env0\<lparr>uuid4 := ''T9''\<rparr>) [''U2'', ''U3''] ''U1'' db_pair
       = (Inr \<lparr>th_id = ''T9'', th_created_at = utcnow env0, th_updated_at = utcnow env0\<rparr>,
          db_pair\<lparr>direct_message_threads :=
                    [thread_T1,
                     \<lparr>th_id = ''T9'', th_created_at = utcnow env0, th_updated_at = utcnow env0\<rparr>],
                  thread_participants :=
                    [(''T1'', ''U1''), (''T1'', ''U2''),
                     (''T9'', ''U2''), (''T9'', ''U3''), (''T9'', ''U1'')]\<rparr>)
   \<and> is_participant
         (snd (create_thread (env0\<lparr>uuid4 := ''T9''\<rparr>) [''U2'', ''U3''] ''U1'' db_pair))
         ''T9'' ''U1''"
  using create_thread_includes_caller
          [of db_pair "env0\<lparr>uuid4 := ''T9''\<rparr>" "[''U2'', ''U3'']" "''U1''"
              "\<lparr>th_id = ''T9'', th_created_at = utcnow env0, th_updated_at = utcnow env0\<rparr>"
              "snd (create_thread (env0\<lparr>uuid4 := ''T9''\<rparr>) [''U2'', ''U3''] ''U1'' db_pair)"]
  by (simp add: db_pair_def env0_def set_add_def create_thread_def new_thread_with_def
        is_participant_def Let_def)

text \<open>
  C9. T2 (with U3) and T3 (with U4) both have U1 and U2 among their participants; no
  thread has just the two. U1 asks for a thread with U2. The subquery finds T2 and T3,
  \<open>scalar_one_or_none\<close> raises on the two rows, and the route ends in the unhandled
  exception: no existing thread is returned.
\<close>

theorem create_thread_two_common_threads:
  "is_participant db_two_groups ''T2'' ''U1'' \<and> is_participant db_two_groups ''T2'' ''U2''
   \<and> is_participant db_two_groups ''T3'' ''U1'' \<and> is_participant db_two_groups ''T3'' ''U2''
   \<and> set_add ''U1'' (remdups [''U1'', ''U2'']) = [''U1'', ''U2'']
   \<and> create_thread env0 [''U1'', ''U2''] ''U1'' db_two_groups
       = (Inl (Raised MultipleResultsFound), db_two_groups)"
  by (simp add: is_participant_def db_two_groups_def set_add_def create_thread_def
        dedup_subquery_def scalar_one_or_none_def thread_T2_def thread_T3_def Let_def)

text \<open>
  C6. T1 is the two-party thread of U1 and U2, and the group thread T2 has both of them
  too. U1 asks for a thread with U2. The subquery counts how many of the two are in a
  thread, so it finds T1 and T2, and \<open>scalar_one_or_none\<close> raises: the existing
  two-party thread is not returned.
\<close>

theorem create_thread_misses_two_party_thread:
  "participants_of db_two_and_three ''T1'' = [''U1'', ''U2'']
   \<and> create_thread env0 [''U1'', ''U2''] ''U1'' db_two_and_three
       = (Inl (Raised MultipleResultsFound), db_two_and_three)"
  by (simp add: participants_of_def db_two_and_three_def set_add_def create_thread_def
        dedup_subquery_def scalar_one_or_none_def thread_T1_def thread_T2_def Let_def)

section \<open>The receive loop\<close>

lemma send_personal_message_store: "store (send_personal_message e msg u w) = store w"
  using send_personal_message_effect [of e msg u w] by auto

text \<open>
  C1. U1 is not a participant of T1 and sends the \<open>message\<close> frame for T1 as the
  first frame of its connection. The error frame goes out and no message is stored. But
  the \<open>continue\<close> after it belongs to \<open>async for db in get_db()\<close>, not to
  \<open>while True\<close>: that loop ends, the code goes on to build \<open>broadcast_message\<close>
  from \<open>new_message\<close>, which was never assigned, and the \<open>UnboundLocalError\<close>
  leaves the receive loop. The socket is taken out of the registry and the \<open>ping\<close>
  that follows is not answered.
\<close>

theorem refused_message_closes_connection:
  "\<not> is_participant (store world_outsider) ''T1'' ''U1''
   \<and> serve_frame env0 1 ''U1'' hello_frame fresh_locals world_outsider
       = (Some UnboundLocalError, fresh_locals,
          world_outsider\<lparr>trace := [Sent 1 (error_frame ''Not a participant in this thread'')]\<rparr>)
   \<and> serve 1 ''U1'' [(env0, hello_frame), (env0, ping_frame)] fresh_locals world_outsider
       = (Closed, fresh_locals,
          world_outsider
            \<lparr>mgr := registry_A\<lparr>active_connections := Map.empty\<rparr>,
             trace := [Sent 1 (error_frame ''Not a participant in this thread'')]\<rparr>)"
  by (simp add: serve_frame_def hello_frame_def on_message_def dict_get_def env0_def
        world_outsider_def db_outsider_def is_participant_def send_json_def fresh_locals_def
        disconnect_def registry_A_def)

text \<open>
  The same \<open>continue\<close>, on a connection that has sent a message before: U1 is in T2
  and sends \<open>first\<close> there, then sends \<open>hello\<close> to T1, where it is not a
  participant. No second message is stored and the connection keeps serving; but after
  the error frame the refused text goes out as a \<open>new_message\<close> frame, under the
  identifier of the first message, to the participants of T2.
\<close>

theorem refused_message_is_broadcast:
  "\<not> is_participant (store world_two_threads) ''T1'' ''U1''
   \<and> fst (serve 1 ''U1'' [(env0, first_frame), (env0\<lparr>uuid4 := ''M2''\<rparr>, hello_frame)]
              fresh_locals world_two_threads) = Serving
   \<and> direct_messages
         (store (snd (snd (serve 1 ''U1'' [(env0, first_frame), (env0\<lparr>uuid4 := ''M2''\<rparr>, hello_frame)]
                             fresh_locals world_two_threads))))
       = [message_first]
   \<and> drop 3 (trace (snd (snd (serve 1 ''U1''
                                  [(env0, first_frame), (env0\<lparr>uuid4 := ''M2''\<rparr>, hello_frame)]
                                  fresh_locals world_two_threads))))
       = [Sent 1 (error_frame ''Not a participant in this thread''),
          Sent 1 (new_message_frame message_first (JStr ''T1'') ''U1'' (JStr ''hello'')),
          Sent 3 (new_message_frame message_first (JStr ''T1'') ''U1'' (JStr ''hello''))]"
  by (simp add: serve_frame_def hello_frame_def first_frame_def on_message_def dict_get_def
        env0_def world_two_threads_def db_two_threads_def is_participant_def send_json_def
        fresh_locals_def participants_of_def send_personal_message_def message_first_def
        Let_def)

text \<open>
  C3, as amended. A frame that decodes to an object whose \<open>type\<close> is none of
  \<open>message\<close>, \<open>typing\<close>, \<open>read_receipt\<close>, \<open>ping\<close> is ignored: nothing is
  sent, nothing changes, and the loop goes on with the frames that follow. A text that is
  not JSON, or that decodes to something other than an object, raises; no frame is sent,
  the exception leaves the loop, the socket is taken out of the registry and the frames
  that follow are not read.
\<close>

theorem unrecognized_or_malformed_frame:
  "(dict_get message_data ''type'' JNull
      \<notin> {JStr ''message'', JStr ''typing'', JStr ''read_receipt'', JStr ''ping''}
    \<longrightarrow> serve_frame e websocket user_id (Decoded (JObj message_data)) l w = (None, l, w)
        \<and> serve websocket user_id ((e, Decoded (JObj message_data)) # rest) l w
            = serve websocket user_id rest l w)
   \<and> serve_frame e websocket user_id Undecodable l w = (Some JSONDecodeError, l, w)
   \<and> serve websocket user_id ((e, Undecodable) # rest) l w
       = (Closed, l, w\<lparr>mgr := disconnect websocket user_id (mgr w)\<rparr>)
   \<and> ((\<forall>kvs. j \<noteq> JObj kvs)
        \<longrightarrow> serve_frame e websocket user_id (Decoded j) l w = (Some AttributeError, l, w)
            \<and> serve websocket user_id ((e, Decoded j) # rest) l w
                = (Closed, l, w\<lparr>mgr := disconnect websocket user_id (mgr w)\<rparr>))"
proof -
  have nonobj: "serve_frame e websocket user_id (Decoded j) l w = (Some AttributeError, l, w)"
    if "\<forall>kvs. j \<noteq> JObj kvs"
    using that by (cases j) (simp_all add: serve_frame_def)
  have other: "serve_frame e websocket user_id (Decoded (JObj message_data)) l w = (None, l, w)"
    if "dict_get message_data ''type'' JNull
          \<notin> {JStr ''message'', JStr ''typing'', JStr ''read_receipt'', JStr ''ping''}"
    using that by (simp add: serve_frame_def)
  have bad: "serve_frame e websocket user_id Undecodable l w = (Some JSONDecodeError, l, w)"
    by (simp add: serve_frame_def)
  show ?thesis
    using nonobj other bad by simp
qed

theorem unrecognized_or_malformed_frame_witness:
  "serve 1 ''U1'' [(env0, subscribe_frame), (env0, ping_frame)] fresh_locals world_outsider
     = (Serving, fresh_locals, world_outsider\<lparr>trace := [Sent 1 (JObj [(''type'', JStr ''pong'')])]\<rparr>)
   \<and> serve 1 ''U1'' [(env0, Decoded (JArr [])), (env0, ping_frame)] fresh_locals world_outsider
     = (Closed, fresh_locals, world_outsider\<lparr>mgr := registry_A\<lparr>active_connections := Map.empty\<rparr>\<rparr>)"
  using unrecognized_or_malformed_frame
          [of "[(''type'', JStr ''subscribe''), (''thread_id'', JStr ''T1'')]" env0 1 "''U1''"
              fresh_locals world_outsider "[(env0, ping_frame)]" "JArr []"]
  by (simp add: subscribe_frame_def dict_get_def ping_frame_def serve_frame_def send_json_def
        env0_def world_outsider_def disconnect_def registry_A_def)

text \<open>
  C3, as stated, fails: the frame of the unknown kind \<open>subscribe\<close> is answered by
  nothing (the trace stays empty), and after a text that is not JSON the connection is
  closed without an error frame, the \<open>ping\<close> behind it unanswered.
\<close>

theorem no_error_frame_for_unrecognized_or_malformed:
  "serve_frame env0 1 ''U1'' subscribe_frame fresh_locals world_outsider
     = (None, fresh_locals, world_outsider)
   \<and> trace world_outsider = []
   \<and> serve 1 ''U1'' [(env0, Undecodable), (env0, ping_frame)] fresh_locals world_outsider
     = (Closed, fresh_locals, world_outsider\<lparr>mgr := registry_A\<lparr>active_connections := Map.empty\<rparr>\<rparr>)"
  by (simp add: subscribe_frame_def dict_get_def serve_frame_def world_outsider_def
        disconnect_def registry_A_def)

text \<open>
  C5. U1, a participant of T1, sends a message to T1. Over the WebSocket the message is
  stored and the row of T1 is left as it was, \<open>updated_at\<close> included. The REST route
  \<open>send_message\<close> on the same store sets the thread's \<open>updated_at\<close> to the
  current time.
\<close>

theorem websocket_message_keeps_updated_at:
  "is_participant (store world_A) ''T1'' ''U1''
   \<and> fst (serve_frame env0 1 ''U1'' (Decoded (JObj hi_data)) fresh_locals world_A) = None
   \<and> store (snd (snd (serve_frame env0 1 ''U1'' (Decoded (JObj hi_data)) fresh_locals world_A)))
       = db_pair\<lparr>direct_messages := [message_M1]\<rparr>
   \<and> direct_message_threads (db_pair\<lparr>direct_messages := [message_M1]\<rparr>) = [thread_T1]
   \<and> send_message env0 ''T1'' ''hi'' None ''U1'' db_pair
       = (Inr message_M1,
          db_pair\<lparr>direct_message_threads := [thread_T1\<lparr>th_updated_at := utcnow env0\<rparr>],
                  direct_messages := [message_M1]\<rparr>)
   \<and> th_updated_at thread_T1 \<noteq> utcnow env0"
  by (simp add: hi_data_def dict_get_def world_A_def db_pair_def is_participant_def
        env0_def serve_frame_def on_message_def fresh_locals_def participants_of_def
        send_personal_message_store message_M1_def send_message_def scalar_one_or_none_def
        thread_T1_def Let_def)

text \<open>
  C2. U1 is connected to instance A; U2, the other participant of T1, has its only socket
  on instance B. Redis is up and A's manager holds a client. U1's message is committed
  and sent to U1's own socket on A, and that is all: the turn leaves no \<open>Published\<close>
  event, since the endpoint calls \<open>broadcast_to_thread\<close> and never
  \<open>publish_message\<close>. Were the frame on the channel, B's handler would read the
  recipients from its member \<open>user_ids\<close>, which the frame does not have, and send
  it to nobody. At startup \<open>lifespan\<close> initializes the manager; it does not start
  \<open>handle_redis_messages\<close>.
\<close>

theorem message_stays_on_its_instance:
  "active_connections (mgr world_A) ''U2'' = None
   \<and> active_connections (mgr world_B) ''U2'' = Some [2]
   \<and> redis (mgr world_A) \<and> redis_up env0
   \<and> fst (serve_frame env0 1 ''U1'' (Decoded (JObj hi_data)) fresh_locals world_A) = None
   \<and> trace (snd (snd (serve_frame env0 1 ''U1'' (Decoded (JObj hi_data)) fresh_locals world_A)))
       = [Committed db_unread,
          Sent 1 (new_message_frame message_M1 (JStr ''T1'') ''U1'' (JStr ''hi''))]
   \<and> on_redis_message env0 (new_message_frame message_M1 (JStr ''T1'') ''U1'' (JStr ''hi'')) world_B
       = (None, world_B)
   \<and> lifespan_startup env0 \<lparr>active_connections = Map.empty, redis = False, pubsub = False\<rparr>
       = \<lparr>active_connections = Map.empty, redis = True, pubsub = True\<rparr>"
  by (simp add: hi_data_def dict_get_def world_A_def world_B_def db_pair_def is_participant_def
        env0_def serve_frame_def on_message_def fresh_locals_def participants_of_def
        send_personal_message_def send_json_def db_unread_def message_M1_def registry_A_def
        registry_B_def on_redis_message_def new_message_frame_def lifespan_startup_def
        initialize_def Let_def)

end
